theory Spec2Isabelle
  imports Main "HOL-Library.Word"
begin

section \<open>The pose renderer of \<^verbatim>\<open>src/openpose/pose/poseRenderer.cpp\<close>\<close>

text \<open>
  The file holds two things: \<^verbatim>\<open>createPartToName\<close>, which builds the table of display
  names of the renderable channels, and the class \<^verbatim>\<open>PoseRenderer\<close> with its per-frame
  entry point \<^verbatim>\<open>renderPose\<close>. Everything else (the rendering kernels, the base class
  \<^verbatim>\<open>Renderer\<close>, \<^verbatim>\<open>error\<close>, \<^verbatim>\<open>cudaCheck\<close>, the topology tables) is declared
  in headers that are not part of the file. A call to one of them is recorded as an event
  with the arguments it received; what it does with them is not modelled.
\<close>

subsection \<open>Values\<close>

text \<open>
  A \<^verbatim>\<open>float\<close> is kept as its 32-bit pattern. The code never computes with one: it
  passes them on and compares one of them with \<^verbatim>\<open>-1.f\<close>. The value -1 has a single
  encoding and no other value compares equal to it, so that comparison is the equality of
  patterns.
\<close>

type_synonym float = "32 word"

definition minusOneF :: float where
  "minusOneF = 0xBF800000"

definition oneF :: float where
  "oneF = 0x3F800000"

text \<open>\<^verbatim>\<open>Point<int>\<close>, a device or host address, and the tag of \<^verbatim>\<open>enum PoseModel\<close>.\<close>

type_synonym point = "int \<times> int"
type_synonym ptr = nat
type_synonym poseModel = nat

text \<open>
  The exceptions that reach a handler of the file: \<^verbatim>\<open>std::out_of_range\<close> from
  \<^verbatim>\<open>map::at\<close> and \<^verbatim>\<open>vector::at\<close>, and whatever \<^verbatim>\<open>error\<close> throws. The first
  argument of \<^verbatim>\<open>error\<close> is a literal of the file or the \<^verbatim>\<open>what()\<close> of a caught
  exception.
\<close>

datatype exn = OutOfRange | RuntimeError string

datatype msg = Text string | What exn

text \<open>
  The calls that leave the file, with their arguments in the order of the source. Every
  kernel receives the frame on the device (\<^verbatim>\<open>*spGpuMemoryPtr\<close>) first, and the four
  heat-map kernels the heat maps of the pose extractor after the output size; both are
  the same expression at every call and are left out of the events. \<^verbatim>\<open>pGpuPose\<close> and
  the data of an \<^verbatim>\<open>Array\<close> are addresses. \<open>CudaMemcpyHostToDevice dst src n b\<close> is
  the copy of \<^verbatim>\<open>n * b * 3 * sizeof(float)\<close> bytes, \<open>n\<close> the number of people and
  \<open>b\<close> the number of body parts. \<open>ErrorLogged m l\<close> is a call
  \<^verbatim>\<open>error(m, l, ...)\<close> with \<^verbatim>\<open>__LINE__ = l\<close>.
\<close>

datatype event =
    ErrorLogged msg nat
  | CpuToGpuMemoryIfNotCopiedYet ptr
  | CudaMemcpyHostToDevice ptr ptr int "32 word"
  | RenderPoseGpu poseModel int point ptr bool bool float
  | RenderBodyPartGpu poseModel point point float "32 word" float
  | RenderBodyPartsGpu poseModel point point float float
  | RenderPartAffinityFieldsGpu poseModel point point float float
  | RenderPartAffinityFieldGpu poseModel point point float "32 word" float
  | GpuToCpuMemoryIfLastRenderer ptr

fun isKernel :: "event \<Rightarrow> bool" where
  "isKernel (RenderPoseGpu _ _ _ _ _ _ _) = True"
| "isKernel (RenderBodyPartGpu _ _ _ _ _ _) = True"
| "isKernel (RenderBodyPartsGpu _ _ _ _ _) = True"
| "isKernel (RenderPartAffinityFieldsGpu _ _ _ _ _) = True"
| "isKernel (RenderPartAffinityFieldGpu _ _ _ _ _ _) = True"
| "isKernel _ = False"

subsection \<open>What the file takes from outside\<close>

text \<open>
  \<^verbatim>\<open>error\<close> (errorAndLog.hpp) is not in the file, and the file calls it both where it
  finds a fault and inside every handler. Whether a call returns or throws decides what
  follows it, so that is a parameter: \<open>errorThrows m l\<close> is \<open>None\<close> when
  \<^verbatim>\<open>error(m, l, ...)\<close> returns after reporting, and \<open>Some e\<close> when it leaves by
  throwing \<open>e\<close>. \<open>cudaLastError l\<close> is the device error that the \<^verbatim>\<open>cudaCheck\<close> at
  line \<open>l\<close> finds, \<open>None\<close> for success.
\<close>

record services =
  errorThrows :: "msg \<Rightarrow> nat \<Rightarrow> exn option"
  cudaLastError :: "nat \<Rightarrow> string option"

text \<open>
  The rows of the topology tables for the pose model in use (poseParameters.hpp):
  \<^verbatim>\<open>getPoseBodyPartMapping(poseModel)\<close>, a \<^verbatim>\<open>std::map<unsigned int, std::string>\<close>,
  and \<^verbatim>\<open>POSE_BODY_PART_PAIRS\<close>, \<^verbatim>\<open>POSE_MAP_IDX\<close>, \<^verbatim>\<open>POSE_NUMBER_BODY_PARTS\<close>
  at index \<^verbatim>\<open>(int)poseModel\<close>.
\<close>

type_synonym labelTable = "32 word \<rightharpoonup> string"

record topology =
  getPoseBodyPartMapping :: labelTable
  POSE_BODY_PART_PAIRS :: "32 word list"
  POSE_MAP_IDX :: "32 word list"
  POSE_NUMBER_BODY_PARTS :: "32 word"

text \<open>
  What \<^verbatim>\<open>renderPose\<close> reads of an \<^verbatim>\<open>Array<float>\<close>: \<^verbatim>\<open>getPtr()\<close>,
  \<^verbatim>\<open>getSize(0)\<close> and \<^verbatim>\<open>empty()\<close>.
\<close>

record array =
  getPtr :: ptr
  getSize0 :: int
  isEmpty :: bool

subsection \<open>Control flow: a trace and an exception\<close>

text \<open>
  A computation extends the trace of events and either returns a value (\<open>Inr\<close>) or
  leaves by an exception (\<open>Inl\<close>).
\<close>

type_synonym 'a comp = "event list \<Rightarrow> (exn + 'a) \<times> event list"

definition retC :: "'a \<Rightarrow> 'a comp" where
  "retC a tr = (Inr a, tr)"

definition throwC :: "exn \<Rightarrow> 'a comp" where
  "throwC e tr = (Inl e, tr)"

definition emit :: "event \<Rightarrow> unit comp" where
  "emit ev tr = (Inr (), tr @ [ev])"

definition bindC :: "'a comp \<Rightarrow> ('a \<Rightarrow> 'b comp) \<Rightarrow> 'b comp" where
  "bindC m f tr = (case m tr of (Inl e, tr') \<Rightarrow> (Inl e, tr') | (Inr a, tr') \<Rightarrow> f a tr')"

definition seqC :: "unit comp \<Rightarrow> 'b comp \<Rightarrow> 'b comp" where
  "seqC m n = bindC m (\<lambda>_. n)"

definition whenC :: "bool \<Rightarrow> unit comp \<Rightarrow> unit comp" where
  "whenC b m = (if b then m else retC ())"

definition liftE :: "exn + 'a \<Rightarrow> 'a comp" where
  "liftE r = (case r of Inl e \<Rightarrow> throwC e | Inr a \<Rightarrow> retC a)"

text \<open>\<^verbatim>\<open>try { m } catch (const std::exception& e) { h e }\<close>\<close>

definition tryCatch :: "'a comp \<Rightarrow> (exn \<Rightarrow> 'a comp) \<Rightarrow> 'a comp" where
  "tryCatch m h tr = (case m tr of (Inl e, tr') \<Rightarrow> h e tr' | (Inr a, tr') \<Rightarrow> (Inr a, tr'))"

text \<open>\<^verbatim>\<open>error(m, l, __FUNCTION__, __FILE__)\<close>: the report, then the return or the throw.\<close>

definition error :: "services \<Rightarrow> msg \<Rightarrow> nat \<Rightarrow> unit comp" where
  "error svc m l =
     seqC (emit (ErrorLogged m l))
          (case errorThrows svc m l of None \<Rightarrow> retC () | Some e \<Rightarrow> throwC e)"

text \<open>
  Modelled from the spec: \<^verbatim>\<open>cudaCheck\<close> (utilities/cuda.hpp) is missing. The spec has a
  device failure reported with the call site as its context, so a pending device error is
  handed to \<^verbatim>\<open>error\<close> with the line of the check; a check that finds none does nothing.
\<close>

definition cudaCheck :: "services \<Rightarrow> nat \<Rightarrow> unit comp" where
  "cudaCheck svc l =
     (case cudaLastError svc l of None \<Rightarrow> retC () | Some s \<Rightarrow> error svc (Text s) l)"

subsection \<open>Containers and strings\<close>

text \<open>\<^verbatim>\<open>std::vector::at\<close> and \<^verbatim>\<open>std::map::at\<close> throw when the index or key is missing.\<close>

definition vector_at :: "'a list \<Rightarrow> nat \<Rightarrow> exn + 'a" where
  "vector_at xs i = (if i < length xs then Inr (xs ! i) else Inl OutOfRange)"

definition map_at :: "labelTable \<Rightarrow> 32 word \<Rightarrow> exn + string" where
  "map_at m k = (case m k of None \<Rightarrow> Inl OutOfRange | Some v \<Rightarrow> Inr v)"

text \<open>
  \<^verbatim>\<open>s.find("(")\<close> is the position of the first \<^verbatim>\<open>(\<close>, \<open>None\<close> standing for
  \<^verbatim>\<open>npos\<close>; \<^verbatim>\<open>s.substr(0, n)\<close> is the first \<open>n\<close> characters, all of \<open>s\<close> when
  \<open>n\<close> is \<^verbatim>\<open>npos\<close> or past the end.
\<close>

fun find_char :: "char \<Rightarrow> string \<Rightarrow> nat option" where
  "find_char c [] = None"
| "find_char c (x # xs) = (if x = c then Some 0 else map_option Suc (find_char c xs))"

definition substr0 :: "string \<Rightarrow> nat option \<Rightarrow> string" where
  "substr0 s n = (case n of None \<Rightarrow> s | Some k \<Rightarrow> take k s)"

subsection \<open>\<^verbatim>\<open>createPartToName\<close> (lines 11 to 38)\<close>

text \<open>
  The right-hand side of lines 27 and 28: two \<^verbatim>\<open>partToName.at\<close> and the concatenation.
  The right operand of an assignment is evaluated before the subscript on its left (the
  order C++17 fixes), so a missing endpoint throws before \<^verbatim>\<open>operator[]\<close> inserts.
\<close>

definition limbName :: "labelTable \<Rightarrow> 32 word \<Rightarrow> 32 word \<Rightarrow> string \<Rightarrow> exn + string" where
  "limbName partToName bodyPartPairsA bodyPartPairsB suffix =
     (case map_at partToName bodyPartPairsA of
        Inl e \<Rightarrow> Inl e
      | Inr a \<Rightarrow>
          (case map_at partToName bodyPartPairsB of
             Inl e \<Rightarrow> Inl e
           | Inr b \<Rightarrow> Inr (a @ ''->'' @ b @ suffix)))"

text \<open>
  One pass of the loop body, lines 23 to 28. Line 28 reads the table that line 27 has
  already changed.
\<close>

definition limbStep :: "topology \<Rightarrow> nat \<Rightarrow> labelTable \<Rightarrow> exn + labelTable" where
  "limbStep t bodyPart partToName =
     (case vector_at (POSE_BODY_PART_PAIRS t) bodyPart of
        Inl e \<Rightarrow> Inl e
      | Inr bodyPartPairsA \<Rightarrow>
     (case vector_at (POSE_BODY_PART_PAIRS t) (bodyPart + 1) of
        Inl e \<Rightarrow> Inl e
      | Inr bodyPartPairsB \<Rightarrow>
     (case vector_at (POSE_MAP_IDX t) bodyPart of
        Inl e \<Rightarrow> Inl e
      | Inr mapIdxA \<Rightarrow>
     (case vector_at (POSE_MAP_IDX t) (bodyPart + 1) of
        Inl e \<Rightarrow> Inl e
      | Inr mapIdxB \<Rightarrow>
     (case limbName partToName bodyPartPairsA bodyPartPairsB ''(X)'' of
        Inl e \<Rightarrow> Inl e
      | Inr nameX \<Rightarrow>
     (case limbName (partToName(mapIdxA \<mapsto> nameX)) bodyPartPairsA bodyPartPairsB ''(Y)'' of
        Inl e \<Rightarrow> Inl e
      | Inr nameY \<Rightarrow> Inr (partToName(mapIdxA \<mapsto> nameX, mapIdxB \<mapsto> nameY))))))))"

text \<open>The loop of line 21, from \<open>bodyPart\<close> on.\<close>

function createPartToName_loop :: "topology \<Rightarrow> nat \<Rightarrow> labelTable \<Rightarrow> exn + labelTable" where
  "createPartToName_loop t bodyPart partToName =
     (if bodyPart < length (POSE_BODY_PART_PAIRS t)
      then (case limbStep t bodyPart partToName of
              Inl e \<Rightarrow> Inl e
            | Inr partToName' \<Rightarrow> createPartToName_loop t (bodyPart + 2) partToName')
      else Inr partToName)"
  by pat_completeness auto
termination
  by (relation "measure (\<lambda>(t, bodyPart, partToName). length (POSE_BODY_PART_PAIRS t) - bodyPart)") auto

definition createPartToName :: "services \<Rightarrow> topology \<Rightarrow> labelTable comp" where
  "createPartToName svc t =
     tryCatch
       (liftE (createPartToName_loop t 0 (getPoseBodyPartMapping t)))
       (\<lambda>e. seqC (error svc (What e) 35) (retC Map.empty))"

subsection \<open>The class \<^verbatim>\<open>PoseRenderer\<close>\<close>

text \<open>
  The members that \<^verbatim>\<open>renderPose\<close> reads. The first three belong to the base class:
  \<open>spElementToRender\<close> is the value that \<^verbatim>\<open>spElementToRender->load()\<close> gives, an
  \<^verbatim>\<open>unsigned int\<close> as the constructor's \<^verbatim>\<open>elementToRender\<close>, and the two alphas are
  what \<^verbatim>\<open>getAlphaKeypoint()\<close> and \<^verbatim>\<open>getAlphaHeatMap()\<close> return.
\<close>

record poseRenderer =
  spElementToRender :: "32 word"
  alphaKeypoint :: float
  alphaHeatMap :: float
  mHeatMapsSize :: point
  mOutputSize :: point
  mPoseModel :: poseModel
  mPartIndexToName :: labelTable
  mBlendOriginalFrame :: bool
  mShowGooglyEyes :: bool
  pGpuPose :: ptr

text \<open>
  The constructor, lines 40 to 55: the table is built once, from the topology of the pose
  model; \<^verbatim>\<open>mShowGooglyEyes\<close> starts false and \<^verbatim>\<open>pGpuPose\<close> null.
\<close>

definition PoseRenderer :: "services \<Rightarrow> topology \<Rightarrow> point \<Rightarrow> point \<Rightarrow> poseModel \<Rightarrow> bool \<Rightarrow>
    float \<Rightarrow> float \<Rightarrow> 32 word \<Rightarrow> poseRenderer comp" where
  "PoseRenderer svc t heatMapsSize outputSize poseModel blendOriginalFrame alphaKeypoint'
       alphaHeatMap' elementToRender =
     bindC (createPartToName svc t) (\<lambda>partToName.
       retC \<lparr>spElementToRender = elementToRender,
             alphaKeypoint = alphaKeypoint',
             alphaHeatMap = alphaHeatMap',
             mHeatMapsSize = heatMapsSize,
             mOutputSize = outputSize,
             mPoseModel = poseModel,
             mPartIndexToName = partToName,
             mBlendOriginalFrame = blendOriginalFrame,
             mShowGooglyEyes = False,
             pGpuPose = 0\<rparr>)"

text \<open>\<^verbatim>\<open>(mBlendOriginalFrame ? getAlphaHeatMap() : 1.f)\<close>\<close>

definition heatMapAlpha :: "poseRenderer \<Rightarrow> float" where
  "heatMapAlpha r = (if mBlendOriginalFrame r then alphaHeatMap r else oneF)"

text \<open>
  Lines 163 to 198, the branch \<^verbatim>\<open>elementRendered != 0\<close>. All arithmetic is that of
  \<^verbatim>\<open>unsigned int\<close>. The value is the name of the element rendered.
\<close>

definition renderHeatMaps :: "services \<Rightarrow> topology \<Rightarrow> poseRenderer \<Rightarrow> float \<Rightarrow> 32 word \<Rightarrow>
    32 word \<Rightarrow> string comp" where
  "renderHeatMaps svc t r scaleNetToOutput elementRendered numberBodyPartsPlusBkg =
     seqC (whenC (scaleNetToOutput = minusOneF)
             (error svc (Text ''Non valid scaleNetToOutput.'') 166))
      (if elementRendered \<le> numberBodyPartsPlusBkg then
         bindC (liftE (map_at (mPartIndexToName r) (elementRendered - 1))) (\<lambda>elementRenderedName.
         seqC (emit (RenderBodyPartGpu (mPoseModel r) (mOutputSize r) (mHeatMapsSize r)
                       scaleNetToOutput elementRendered (heatMapAlpha r)))
              (retC elementRenderedName))
       else if elementRendered = numberBodyPartsPlusBkg + 1 then
         seqC (emit (RenderBodyPartsGpu (mPoseModel r) (mOutputSize r) (mHeatMapsSize r)
                       scaleNetToOutput (heatMapAlpha r)))
              (retC ''Heatmaps'')
       else if elementRendered = numberBodyPartsPlusBkg + 2 then
         seqC (emit (RenderPartAffinityFieldsGpu (mPoseModel r) (mOutputSize r) (mHeatMapsSize r)
                       scaleNetToOutput (heatMapAlpha r)))
              (retC ''PAFs (Part Affinity Fields)'')
       else
         (let affinityPart = (elementRendered - numberBodyPartsPlusBkg - 3) * 2 in
          bindC (liftE (vector_at (POSE_MAP_IDX t) (unat affinityPart))) (\<lambda>affinityPartMapped.
          bindC (liftE (map_at (mPartIndexToName r) affinityPartMapped)) (\<lambda>elementRenderedName.
          (let elementRenderedName' =
                 substr0 elementRenderedName (find_char CHR ''('' elementRenderedName) in
           seqC (emit (RenderPartAffinityFieldGpu (mPoseModel r) (mOutputSize r) (mHeatMapsSize r)
                         scaleNetToOutput affinityPartMapped (heatMapAlpha r)))
                (retC elementRenderedName'))))))"

text \<open>Lines 149 to 199, the block \<^verbatim>\<open>GPU rendering\<close>.\<close>

definition gpuRendering :: "services \<Rightarrow> topology \<Rightarrow> poseRenderer \<Rightarrow> array \<Rightarrow> array \<Rightarrow> float \<Rightarrow>
    32 word \<Rightarrow> int \<Rightarrow> string comp" where
  "gpuRendering svc t r outputData poseKeypoints scaleNetToOutput elementRendered numberPeople =
     (if numberPeople > 0 \<or> elementRendered \<noteq> 0 \<or> \<not> mBlendOriginalFrame r then
        seqC (emit (CpuToGpuMemoryIfNotCopiedYet (getPtr outputData)))
       (seqC (cudaCheck svc 153)
        (let numberBodyParts = POSE_NUMBER_BODY_PARTS t;
             numberBodyPartsPlusBkg = numberBodyParts + 1 in
         if elementRendered = 0 then
           seqC (whenC (\<not> isEmpty poseKeypoints)
                   (emit (CudaMemcpyHostToDevice (pGpuPose r) (getPtr poseKeypoints)
                            numberPeople numberBodyParts)))
          (seqC (emit (RenderPoseGpu (mPoseModel r) numberPeople (mOutputSize r) (pGpuPose r)
                         (mShowGooglyEyes r) (mBlendOriginalFrame r) (alphaKeypoint r)))
                (retC ''''))
         else renderHeatMaps svc t r scaleNetToOutput elementRendered numberBodyPartsPlusBkg))
      else retC '''')"

text \<open>
  \<^verbatim>\<open>renderPose\<close>, lines 137 to 211. The pair returned is a
  \<^verbatim>\<open>std::pair<int, std::string>\<close>: the unsigned \<^verbatim>\<open>elementRendered\<close> is converted to
  \<^verbatim>\<open>int\<close>.
\<close>

definition renderPose :: "services \<Rightarrow> topology \<Rightarrow> poseRenderer \<Rightarrow> array \<Rightarrow> array \<Rightarrow> float \<Rightarrow>
    (int \<times> string) comp" where
  "renderPose svc t r outputData poseKeypoints scaleNetToOutput =
     tryCatch
       (seqC (whenC (isEmpty outputData) (error svc (Text ''Empty outputData.'') 143))
        (let elementRendered = spElementToRender r;
             numberPeople = getSize0 poseKeypoints in
         bindC (gpuRendering svc t r outputData poseKeypoints scaleNetToOutput
                  elementRendered numberPeople) (\<lambda>elementRenderedName.
         seqC (emit (GpuToCpuMemoryIfLastRenderer (getPtr outputData)))
        (seqC (cudaCheck svc 202)
              (retC (sint elementRendered, elementRenderedName))))))
       (\<lambda>e. seqC (error svc (What e) 208) (retC (- 1, '''')))"

subsection \<open>Concrete inputs\<close>

text \<open>
  Modelled from the spec: \<^verbatim>\<open>error\<close> is missing. The spec has a failure caught at the
  boundary of the operation, logged, and turned into the default return value instead of
  leaving as an exception: a report made where the fault is found throws, with the text
  as its \<^verbatim>\<open>what()\<close>, and the report made by a handler returns. No device error is
  pending.
\<close>

definition specServices :: services where
  "specServices =
     \<lparr>errorThrows = (\<lambda>m l. case m of Text s \<Rightarrow> Some (RuntimeError s) | What e \<Rightarrow> None),
      cudaLastError = (\<lambda>l. None)\<rparr>"

text \<open>An \<^verbatim>\<open>error\<close> that throws wherever it is called (the what() being the text).\<close>

definition throwingServices :: services where
  "throwingServices =
     \<lparr>errorThrows = (\<lambda>m l. case m of Text s \<Rightarrow> Some (RuntimeError s) | What e \<Rightarrow> Some e),
      cudaLastError = (\<lambda>l. None)\<rparr>"

text \<open>
  The topology of the spec's scenario: five parts, one limb from part 0 to part 1, its two
  affinity channels at 5 and 6.
\<close>

definition scenarioTopology :: topology where
  "scenarioTopology =
     \<lparr>getPoseBodyPartMapping =
        map_of [(0, ''nose''), (1, ''neck''), (2, ''rShoulder''), (3, ''rElbow''), (4, ''rWrist'')],
      POSE_BODY_PART_PAIRS = [0, 1],
      POSE_MAP_IDX = [5, 6],
      POSE_NUMBER_BODY_PARTS = 5\<rparr>"

definition scenarioLabels :: labelTable where
  "scenarioLabels =
     (map_of [(0, ''nose''), (1, ''neck''), (2, ''rShoulder''), (3, ''rElbow''), (4, ''rWrist'')])
       (5 \<mapsto> ''nose->neck(X)'', 6 \<mapsto> ''nose->neck(Y)'')"

text \<open>A topology whose limb ends at part 7, which has no name.\<close>

definition brokenTopology :: topology where
  "brokenTopology =
     \<lparr>getPoseBodyPartMapping = map_of [(0, ''nose''), (1, ''neck'')],
      POSE_BODY_PART_PAIRS = [0, 7],
      POSE_MAP_IDX = [2, 3],
      POSE_NUMBER_BODY_PARTS = 2\<rparr>"

text \<open>
  A renderer of the scenario showing element \<open>sel\<close>: output 640 by 480, heat maps 80 by
  60, alphas 0.6 and 0.7.
\<close>

definition scenarioRenderer :: "32 word \<Rightarrow> bool \<Rightarrow> poseRenderer" where
  "scenarioRenderer sel blend =
     \<lparr>spElementToRender = sel,
      alphaKeypoint = 0x3F19999A,
      alphaHeatMap = 0x3F333333,
      mHeatMapsSize = (80, 60),
      mOutputSize = (640, 480),
      mPoseModel = 0,
      mPartIndexToName = scenarioLabels,
      mBlendOriginalFrame = blend,
      mShowGooglyEyes = False,
      pGpuPose = 0\<rparr>"

text \<open>An output frame, an empty one, the keypoints of two people and of nobody; scale 8.\<close>

definition outputFrame :: array where
  "outputFrame = \<lparr>getPtr = 4096, getSize0 = 480, isEmpty = False\<rparr>"

definition emptyFrame :: array where
  "emptyFrame = \<lparr>getPtr = 0, getSize0 = 0, isEmpty = True\<rparr>"

definition twoPeople :: array where
  "twoPeople = \<lparr>getPtr = 8192, getSize0 = 2, isEmpty = False\<rparr>"

definition noPeople :: array where
  "noPeople = \<lparr>getPtr = 0, getSize0 = 0, isEmpty = True\<rparr>"

definition scale8 :: float where
  "scale8 = 0x41000000"

subsection \<open>Notions used to state the properties\<close>

text \<open>
  The table as it stands when the loop of \<^verbatim>\<open>createPartToName\<close> comes to limb \<open>k\<close>,
  that is after \<open>k\<close> passes of its body, or the exception that one of them threw.
\<close>

fun tableAfter :: "topology \<Rightarrow> nat \<Rightarrow> exn + labelTable" where
  "tableAfter t 0 = Inr (getPoseBodyPartMapping t)"
| "tableAfter t (Suc k) =
     (case tableAfter t k of Inl e \<Rightarrow> Inl e | Inr partToName \<Rightarrow> limbStep t (2 * k) partToName)"

text \<open>
  The number of part names of a topology, the number of its limbs (the pairs are stored
  flat, two entries a limb), and the number of entries of the table that
  \<^verbatim>\<open>createPartToName\<close> returned.
\<close>

definition numberOfParts :: "topology \<Rightarrow> nat" where
  "numberOfParts t = card (dom (getPoseBodyPartMapping t))"

definition numberOfLimbPairs :: "topology \<Rightarrow> nat" where
  "numberOfLimbPairs t = length (POSE_BODY_PART_PAIRS t) div 2"

definition tableSize :: "exn + labelTable \<Rightarrow> nat" where
  "tableSize res = (case res of Inl e \<Rightarrow> 0 | Inr partToName \<Rightarrow> card (dom partToName))"

text \<open>
  The two entries that lines 27 and 28 make for the limb stored at \<open>bodyPart\<close> and
  \<open>bodyPart + 1\<close>, in terms of the part names of the topology.
\<close>

definition synthesized :: "topology \<Rightarrow> labelTable \<Rightarrow> nat \<Rightarrow> bool" where
  "synthesized t partToName bodyPart =
     (case (getPoseBodyPartMapping t (POSE_BODY_PART_PAIRS t ! bodyPart),
            getPoseBodyPartMapping t (POSE_BODY_PART_PAIRS t ! (bodyPart + 1))) of
        (Some a, Some b) \<Rightarrow>
          partToName (POSE_MAP_IDX t ! bodyPart) = Some (a @ ''->'' @ b @ ''(X)'') \<and>
          partToName (POSE_MAP_IDX t ! (bodyPart + 1)) = Some (a @ ''->'' @ b @ ''(Y)'')
      | _ \<Rightarrow> False)"

section \<open>Properties\<close>

subsection \<open>Auxiliary facts\<close>

lemmas comp_defs = retC_def throwC_def emit_def bindC_def seqC_def whenC_def liftE_def
  tryCatch_def error_def cudaCheck_def

lemmas render_defs = renderPose_def gpuRendering_def renderHeatMaps_def heatMapAlpha_def
  vector_at_def map_at_def Let_def

lemma unat_bound32: "unat (s :: 32 word) < 2 ^ 32"
  using unsigned_less [of s, where 'a = nat] by simp

lemma unat_plus_small:
  fixes n :: "32 word"
  assumes "unat n + k < 2 ^ 32"
  shows "unat (n + of_nat k) = unat n + k"
proof -
  have "unat (of_nat k :: 32 word) = k"
    using assms by (simp add: unat_of_nat)
  then show ?thesis
    using assms by (simp add: unat_add_lem [THEN iffD1])
qed

lemma word_plus1_le:
  fixes s n :: "32 word"
  assumes "unat n + 1 < 2 ^ 32"
  shows "(s \<le> n + 1) = (unat s \<le> unat n + 1)"
  using unat_plus_small [of n 1] assms by (simp add: word_le_nat_alt)

lemma word_eq_plus:
  fixes s n :: "32 word"
  assumes "unat s = unat n + k"
  shows "s = n + of_nat k"
proof -
  have "s = of_nat (unat s)" by simp
  also have "\<dots> = of_nat (unat n + k)" using assms by simp
  also have "\<dots> = n + of_nat k" by simp
  finally show ?thesis .
qed

lemma word_above_plus1:
  fixes s n :: "32 word"
  assumes "unat n + 1 < unat s"
  shows "\<not> s \<le> n + 1"
proof -
  have "unat n + 1 < 2 ^ 32" using assms unat_bound32 [of s] by linarith
  then show ?thesis using assms by (simp add: word_plus1_le)
qed

lemma word_ne_plus:
  fixes s n :: "32 word"
  assumes "unat n + k < unat s"
  shows "s \<noteq> n + of_nat k"
proof
  assume e: "s = n + of_nat k"
  have "unat n + k < 2 ^ 32" using assms unat_bound32 [of s] by linarith
  then have "unat (n + of_nat k) = unat n + k" by (rule unat_plus_small)
  with e assms show False by simp
qed

lemma word_plus_1_1: "(n :: 32 word) + 1 + 1 = n + of_nat 2"
  by simp

lemma word_plus_1_2: "(n :: 32 word) + 1 + 2 = n + of_nat 3"
  by simp

text \<open>Without wrap-around the unsigned \<^verbatim>\<open>affinityPart\<close> of line 191 is the integer it names.\<close>

lemma affinityPart_unat:
  fixes s n :: "32 word"
  assumes "unat n + 3 < unat s" and "2 * (unat s - (unat n + 4)) < 2 ^ 32"
  shows "unat ((s - (n + 1) - 3) * 2) = 2 * (unat s - (unat n + 4))"
proof -
  have bound: "unat n + 4 < 2 ^ 32" using assms(1) unat_bound32 [of s] by linarith
  have n4: "unat (n + 4) = unat n + 4" using unat_plus_small [of n 4] bound by simp
  have le: "n + 4 \<le> s" using assms(1) n4 by (simp add: word_le_nat_alt)
  have eq: "s - (n + 1) - 3 = s - (n + 4)" by simp
  have d: "unat (s - (n + 1) - 3) = unat s - (unat n + 4)"
    unfolding eq using unat_sub [OF le] by (simp only: n4)
  have "unat (s - (n + 1) - 3) * unat (2 :: 32 word) < 2 ^ LENGTH(32)"
    using assms(2) d by (simp add: mult.commute)
  then have "unat ((s - (n + 1) - 3) * 2) = unat (s - (n + 1) - 3) * unat (2 :: 32 word)"
    by (simp only: unat_mult_lem)
  then show ?thesis using d by simp
qed

text \<open>Line 194 keeps what stands before the first \<^verbatim>\<open>(\<close>.\<close>

lemma substr0_find_char: "substr0 s (find_char c s) = takeWhile (\<lambda>x. x \<noteq> c) s"
  by (induction s) (auto simp: substr0_def split: option.splits)

lemma takeWhile_no_char: "c \<notin> set (takeWhile (\<lambda>x. x \<noteq> c) s)"
  by (induction s) auto

lemmas scenario_defs = specServices_def scenarioTopology_def scenarioRenderer_def
  scenarioLabels_def outputFrame_def emptyFrame_def twoPeople_def noPeople_def scale8_def
  minusOneF_def oneF_def

subsection \<open>The heat-map branches of \<^verbatim>\<open>renderPose\<close>\<close>

text \<open>
  C1. Let the output buffer be non-empty, the scale not the sentinel -1 and no device
  error pending. For every selected element with
  \<open>1 \<le> selectedLayer \<le> numberBodyParts + 1\<close> whose key \<open>selectedLayer - 1\<close> is in the
  label table, \<^verbatim>\<open>renderPose\<close> returns exactly the table's entry at that key, and the
  only kernel it invokes is the single-part heat-map kernel, with the scale, the channel
  \<open>selectedLayer\<close>, and as alpha the heat-map alpha when blending and 1.0 otherwise.
\<close>

theorem renderPose_single_part_heatmap:
  assumes "\<not> isEmpty outputData"
    and "cudaLastError svc 153 = None" and "cudaLastError svc 202 = None"
    and "scaleNetToOutput \<noteq> minusOneF"
    and "1 \<le> unat (spElementToRender r)"
    and "unat (spElementToRender r) \<le> unat (POSE_NUMBER_BODY_PARTS t) + 1"
    and "unat (POSE_NUMBER_BODY_PARTS t) + 1 < 2 ^ 32"
    and "mPartIndexToName r (spElementToRender r - 1) = Some name"
  shows "renderPose svc t r outputData poseKeypoints scaleNetToOutput tr =
      (Inr (sint (spElementToRender r), name),
       tr @ [CpuToGpuMemoryIfNotCopiedYet (getPtr outputData),
             RenderBodyPartGpu (mPoseModel r) (mOutputSize r) (mHeatMapsSize r) scaleNetToOutput
               (spElementToRender r) (if mBlendOriginalFrame r then alphaHeatMap r else oneF),
             GpuToCpuMemoryIfLastRenderer (getPtr outputData)])"
proof -
  have a: "spElementToRender r \<noteq> 0" using assms(5) by auto
  have b: "spElementToRender r \<le> POSE_NUMBER_BODY_PARTS t + 1"
    using assms(6,7) by (simp add: word_plus1_le)
  show ?thesis
    using assms(1-4,8) a b by (simp add: render_defs comp_defs)
qed

theorem renderPose_single_part_heatmap_witness:
  "renderPose specServices scenarioTopology (scenarioRenderer 2 True) outputFrame twoPeople
     scale8 [] =
     (Inr (2, ''neck''),
      [CpuToGpuMemoryIfNotCopiedYet 4096,
       RenderBodyPartGpu 0 (640, 480) (80, 60) 0x41000000 2 0x3F333333,
       GpuToCpuMemoryIfLastRenderer 4096]) \<and>
   renderPose specServices scenarioTopology (scenarioRenderer 6 False) outputFrame twoPeople
     scale8 [] =
     (Inr (6, ''nose->neck(X)''),
      [CpuToGpuMemoryIfNotCopiedYet 4096,
       RenderBodyPartGpu 0 (640, 480) (80, 60) 0x41000000 6 0x3F800000,
       GpuToCpuMemoryIfLastRenderer 4096])"
  using renderPose_single_part_heatmap [where svc = specServices and t = scenarioTopology
      and r = "scenarioRenderer 2 True" and outputData = outputFrame
      and poseKeypoints = twoPeople and scaleNetToOutput = scale8 and name = "''neck''"
      and tr = "[]"]
    renderPose_single_part_heatmap [where svc = specServices and t = scenarioTopology
      and r = "scenarioRenderer 6 False" and outputData = outputFrame
      and poseKeypoints = twoPeople and scaleNetToOutput = scale8
      and name = "''nose->neck(X)''" and tr = "[]"]
  by (simp add: scenario_defs)

text \<open>
  C2. With the same preconditions, for \<open>selectedLayer = numberBodyParts + 2\<close>
  \<^verbatim>\<open>renderPose\<close> returns the label \<^verbatim>\<open>Heatmaps\<close> and invokes the combined heat-map
  kernel, and for \<open>selectedLayer = numberBodyParts + 3\<close> it returns the label
  \<^verbatim>\<open>PAFs (Part Affinity Fields)\<close> and invokes the combined affinity kernel.
\<close>

theorem renderPose_combined_layers:
  assumes "\<not> isEmpty outputData"
    and "cudaLastError svc 153 = None" and "cudaLastError svc 202 = None"
    and "scaleNetToOutput \<noteq> minusOneF"
  shows "(unat (spElementToRender r) = unat (POSE_NUMBER_BODY_PARTS t) + 2 \<longrightarrow>
          renderPose svc t r outputData poseKeypoints scaleNetToOutput tr =
            (Inr (sint (spElementToRender r), ''Heatmaps''),
             tr @ [CpuToGpuMemoryIfNotCopiedYet (getPtr outputData),
                   RenderBodyPartsGpu (mPoseModel r) (mOutputSize r) (mHeatMapsSize r)
                     scaleNetToOutput (if mBlendOriginalFrame r then alphaHeatMap r else oneF),
                   GpuToCpuMemoryIfLastRenderer (getPtr outputData)])) \<and>
         (unat (spElementToRender r) = unat (POSE_NUMBER_BODY_PARTS t) + 3 \<longrightarrow>
          renderPose svc t r outputData poseKeypoints scaleNetToOutput tr =
            (Inr (sint (spElementToRender r), ''PAFs (Part Affinity Fields)''),
             tr @ [CpuToGpuMemoryIfNotCopiedYet (getPtr outputData),
                   RenderPartAffinityFieldsGpu (mPoseModel r) (mOutputSize r) (mHeatMapsSize r)
                     scaleNetToOutput (if mBlendOriginalFrame r then alphaHeatMap r else oneF),
                   GpuToCpuMemoryIfLastRenderer (getPtr outputData)]))"
proof (intro conjI impI)
  let ?s = "spElementToRender r" and ?n = "POSE_NUMBER_BODY_PARTS t"
  assume h: "unat ?s = unat ?n + 2"
  have a: "?s \<noteq> 0" using h by auto
  have b: "\<not> ?s \<le> ?n + 1" using h by (intro word_above_plus1) simp
  have c: "?s = ?n + 1 + 1" unfolding word_plus_1_1 using h by (rule word_eq_plus)
  show "renderPose svc t r outputData poseKeypoints scaleNetToOutput tr =
            (Inr (sint ?s, ''Heatmaps''),
             tr @ [CpuToGpuMemoryIfNotCopiedYet (getPtr outputData),
                   RenderBodyPartsGpu (mPoseModel r) (mOutputSize r) (mHeatMapsSize r)
                     scaleNetToOutput (if mBlendOriginalFrame r then alphaHeatMap r else oneF),
                   GpuToCpuMemoryIfLastRenderer (getPtr outputData)])"
    using assms a b c by (simp add: render_defs comp_defs)
next
  let ?s = "spElementToRender r" and ?n = "POSE_NUMBER_BODY_PARTS t"
  assume h: "unat ?s = unat ?n + 3"
  have a: "?s \<noteq> 0" using h by auto
  have b: "\<not> ?s \<le> ?n + 1" using h by (intro word_above_plus1) simp
  have c: "?s = ?n + 1 + 2" unfolding word_plus_1_2 using h by (rule word_eq_plus)
  have d: "?s \<noteq> ?n + 1 + 1" unfolding word_plus_1_1 using h by (intro word_ne_plus) simp
  show "renderPose svc t r outputData poseKeypoints scaleNetToOutput tr =
            (Inr (sint ?s, ''PAFs (Part Affinity Fields)''),
             tr @ [CpuToGpuMemoryIfNotCopiedYet (getPtr outputData),
                   RenderPartAffinityFieldsGpu (mPoseModel r) (mOutputSize r) (mHeatMapsSize r)
                     scaleNetToOutput (if mBlendOriginalFrame r then alphaHeatMap r else oneF),
                   GpuToCpuMemoryIfLastRenderer (getPtr outputData)])"
    using assms a b c d by (simp add: render_defs comp_defs)
qed

theorem renderPose_combined_layers_witness:
  "renderPose specServices scenarioTopology (scenarioRenderer 7 True) outputFrame twoPeople
     scale8 [] =
     (Inr (7, ''Heatmaps''),
      [CpuToGpuMemoryIfNotCopiedYet 4096,
       RenderBodyPartsGpu 0 (640, 480) (80, 60) 0x41000000 0x3F333333,
       GpuToCpuMemoryIfLastRenderer 4096]) \<and>
   renderPose specServices scenarioTopology (scenarioRenderer 8 True) outputFrame twoPeople
     scale8 [] =
     (Inr (8, ''PAFs (Part Affinity Fields)''),
      [CpuToGpuMemoryIfNotCopiedYet 4096,
       RenderPartAffinityFieldsGpu 0 (640, 480) (80, 60) 0x41000000 0x3F333333,
       GpuToCpuMemoryIfLastRenderer 4096])"
  using renderPose_combined_layers [where svc = specServices and t = scenarioTopology
      and r = "scenarioRenderer 7 True" and outputData = outputFrame
      and poseKeypoints = twoPeople and scaleNetToOutput = scale8 and tr = "[]"]
    renderPose_combined_layers [where svc = specServices and t = scenarioTopology
      and r = "scenarioRenderer 8 True" and outputData = outputFrame
      and poseKeypoints = twoPeople and scaleNetToOutput = scale8 and tr = "[]"]
  by (simp add: scenario_defs)

text \<open>
  C3. With the same preconditions, for every \<open>selectedLayer > B + 2\<close>, where
  \<open>B = numberBodyParts + 1\<close>: let \<open>affinityIndex = (selectedLayer - B - 3) * 2\<close> be a
  position of the affinity-channel sequence (shorter than \<open>2^32\<close> entries, so that the
  unsigned product is that integer), \<open>mapIdxA\<close> the channel at that position and
  \<open>name\<close> the table's entry at \<open>mapIdxA\<close>. Then \<^verbatim>\<open>renderPose\<close> returns \<open>name\<close> cut
  before its first \<^verbatim>\<open>(\<close>, a label without any \<^verbatim>\<open>(\<close>, and the only kernel it invokes
  is the single-affinity kernel, with channel \<open>mapIdxA\<close>.
\<close>

theorem renderPose_single_affinity:
  assumes "\<not> isEmpty outputData"
    and "cudaLastError svc 153 = None" and "cudaLastError svc 202 = None"
    and "scaleNetToOutput \<noteq> minusOneF"
    and "unat (POSE_NUMBER_BODY_PARTS t) + 1 + 2 < unat (spElementToRender r)"
    and "affinityIndex =
           (unat (spElementToRender r) - (unat (POSE_NUMBER_BODY_PARTS t) + 1) - 3) * 2"
    and "affinityIndex < length (POSE_MAP_IDX t)"
    and "length (POSE_MAP_IDX t) \<le> 2 ^ 32"
    and "POSE_MAP_IDX t ! affinityIndex = mapIdxA"
    and "mPartIndexToName r mapIdxA = Some name"
  shows "renderPose svc t r outputData poseKeypoints scaleNetToOutput tr =
           (Inr (sint (spElementToRender r), takeWhile (\<lambda>c. c \<noteq> CHR ''('') name),
            tr @ [CpuToGpuMemoryIfNotCopiedYet (getPtr outputData),
                  RenderPartAffinityFieldGpu (mPoseModel r) (mOutputSize r) (mHeatMapsSize r)
                    scaleNetToOutput mapIdxA
                    (if mBlendOriginalFrame r then alphaHeatMap r else oneF),
                  GpuToCpuMemoryIfLastRenderer (getPtr outputData)]) \<and>
         CHR ''('' \<notin> set (takeWhile (\<lambda>c. c \<noteq> CHR ''('') name)"
proof -
  let ?s = "spElementToRender r" and ?n = "POSE_NUMBER_BODY_PARTS t"
  have gt: "unat ?n + 3 < unat ?s" using assms(5) by simp
  have a: "?s \<noteq> 0" using gt by auto
  have b: "\<not> ?s \<le> ?n + 1" using gt by (intro word_above_plus1) simp
  have c: "?s \<noteq> ?n + 1 + 1" unfolding word_plus_1_1 using gt by (intro word_ne_plus) simp
  have d: "?s \<noteq> ?n + 1 + 2" unfolding word_plus_1_2 using gt by (intro word_ne_plus) simp
  have i: "affinityIndex = 2 * (unat ?s - (unat ?n + 4))" using assms(6) by simp
  have "2 * (unat ?s - (unat ?n + 4)) < 2 ^ 32" using i assms(7,8) by simp
  then have "unat ((?s - (?n + 1) - 3) * 2) = 2 * (unat ?s - (unat ?n + 4))"
    using gt by (intro affinityPart_unat)
  then have e: "unat ((?s - (?n + 1) - 3) * 2) = affinityIndex" using i by simp
  have "renderPose svc t r outputData poseKeypoints scaleNetToOutput tr =
           (Inr (sint ?s, takeWhile (\<lambda>c. c \<noteq> CHR ''('') name),
            tr @ [CpuToGpuMemoryIfNotCopiedYet (getPtr outputData),
                  RenderPartAffinityFieldGpu (mPoseModel r) (mOutputSize r) (mHeatMapsSize r)
                    scaleNetToOutput mapIdxA
                    (if mBlendOriginalFrame r then alphaHeatMap r else oneF),
                  GpuToCpuMemoryIfLastRenderer (getPtr outputData)])"
    using assms(1-4,7,9,10) a b c d e
    by (simp add: render_defs substr0_find_char comp_defs)
  then show ?thesis by (simp add: takeWhile_no_char)
qed

theorem renderPose_single_affinity_witness:
  "renderPose specServices scenarioTopology (scenarioRenderer 9 True) outputFrame twoPeople
     scale8 [] =
     (Inr (9, ''nose->neck''),
      [CpuToGpuMemoryIfNotCopiedYet 4096,
       RenderPartAffinityFieldGpu 0 (640, 480) (80, 60) 0x41000000 5 0x3F333333,
       GpuToCpuMemoryIfLastRenderer 4096])"
  using renderPose_single_affinity [where svc = specServices and t = scenarioTopology
      and r = "scenarioRenderer 9 True" and outputData = outputFrame
      and poseKeypoints = twoPeople and scaleNetToOutput = scale8 and affinityIndex = 0
      and mapIdxA = 5 and name = "''nose->neck(X)''" and tr = "[]"]
  by (simp add: scenario_defs)

subsection \<open>Skeleton mode\<close>

text \<open>
  C4, as the spec states it, fails: with element 0 selected, nobody in the frame and
  blending on, no kernel is invoked at all, although the output buffer is non-empty.
\<close>

theorem renderPose_skeleton_counterexample:
  "filter isKernel
     (snd (renderPose specServices scenarioTopology (scenarioRenderer 0 True) outputFrame
        noPeople scale8 [])) = []"
  by (simp add: render_defs comp_defs scenario_defs)

text \<open>
  C4, amended. For every call with element 0 selected, a non-empty output buffer, no
  device error pending, and at least one person in the frame or blending off (the guard
  of line 150): the returned label is empty, the keypoints are copied to the device buffer
  if and only if the keypoint set is non-empty, and the skeleton kernel is invoked with
  the pose model, the person count, the output size, the device buffer, the googly-eyes
  flag, the blend flag and the keypoint alpha.
\<close>

theorem renderPose_skeleton:
  assumes "spElementToRender r = 0"
    and "\<not> isEmpty outputData"
    and "cudaLastError svc 153 = None" and "cudaLastError svc 202 = None"
    and "0 < getSize0 poseKeypoints \<or> \<not> mBlendOriginalFrame r"
  shows "renderPose svc t r outputData poseKeypoints scaleNetToOutput tr =
           (Inr (0, ''''),
            tr @ [CpuToGpuMemoryIfNotCopiedYet (getPtr outputData)] @
              (if isEmpty poseKeypoints then []
               else [CudaMemcpyHostToDevice (pGpuPose r) (getPtr poseKeypoints)
                       (getSize0 poseKeypoints) (POSE_NUMBER_BODY_PARTS t)]) @
              [RenderPoseGpu (mPoseModel r) (getSize0 poseKeypoints) (mOutputSize r) (pGpuPose r)
                 (mShowGooglyEyes r) (mBlendOriginalFrame r) (alphaKeypoint r),
               GpuToCpuMemoryIfLastRenderer (getPtr outputData)])"
  using assms by (auto simp add: render_defs comp_defs)

theorem renderPose_skeleton_witness:
  "renderPose specServices scenarioTopology (scenarioRenderer 0 True) outputFrame twoPeople
     scale8 [] =
     (Inr (0, ''''),
      [CpuToGpuMemoryIfNotCopiedYet 4096,
       CudaMemcpyHostToDevice 0 8192 2 5,
       RenderPoseGpu 0 2 (640, 480) 0 False True 0x3F19999A,
       GpuToCpuMemoryIfLastRenderer 4096]) \<and>
   renderPose specServices scenarioTopology (scenarioRenderer 0 False) outputFrame noPeople
     scale8 [] =
     (Inr (0, ''''),
      [CpuToGpuMemoryIfNotCopiedYet 4096,
       RenderPoseGpu 0 0 (640, 480) 0 False False 0x3F19999A,
       GpuToCpuMemoryIfLastRenderer 4096])"
  using renderPose_skeleton [where svc = specServices and t = scenarioTopology
      and r = "scenarioRenderer 0 True" and outputData = outputFrame
      and poseKeypoints = twoPeople and scaleNetToOutput = scale8 and tr = "[]"]
    renderPose_skeleton [where svc = specServices and t = scenarioTopology
      and r = "scenarioRenderer 0 False" and outputData = outputFrame
      and poseKeypoints = noPeople and scaleNetToOutput = scale8 and tr = "[]"]
  by (simp add: scenario_defs)

text \<open>
  C10. For every call with element 0 selected, nobody in the frame and blending on (the
  output buffer non-empty, no device error pending), the whole rendering block is skipped:
  the frame is not uploaded, the keypoints are not copied, no kernel is invoked. The
  read-back of the base class is the only call made, and the call returns \<open>(0, "")\<close>.
\<close>

theorem renderPose_nothing_to_render:
  assumes "spElementToRender r = 0"
    and "getSize0 poseKeypoints = 0"
    and "mBlendOriginalFrame r"
    and "\<not> isEmpty outputData"
    and "cudaLastError svc 202 = None"
  shows "renderPose svc t r outputData poseKeypoints scaleNetToOutput tr =
           (Inr (0, ''''), tr @ [GpuToCpuMemoryIfLastRenderer (getPtr outputData)])"
  using assms by (simp add: render_defs comp_defs)

theorem renderPose_nothing_to_render_witness:
  "renderPose specServices scenarioTopology (scenarioRenderer 0 True) outputFrame noPeople
     scale8 [] = (Inr (0, ''''), [GpuToCpuMemoryIfLastRenderer 4096])"
  using renderPose_nothing_to_render [where svc = specServices and t = scenarioTopology
      and r = "scenarioRenderer 0 True" and outputData = outputFrame
      and poseKeypoints = noPeople and scaleNetToOutput = scale8 and tr = "[]"]
  by (simp add: scenario_defs)

subsection \<open>The failure paths of \<^verbatim>\<open>renderPose\<close>\<close>

text \<open>
  C5. Let \<^verbatim>\<open>error\<close> throw when line 143 reports the empty buffer and return when the
  handler of line 208 reports what it caught. Then every call with an empty output buffer
  reports the error, invokes no kernel, makes no call that touches a buffer (the two
  reports are all it does), and returns \<open>(-1, "")\<close>; no exception leaves the function.
\<close>

theorem renderPose_empty_output:
  assumes "isEmpty outputData"
    and "errorThrows svc (Text ''Empty outputData.'') 143 = Some e"
    and "errorThrows svc (What e) 208 = None"
  shows "renderPose svc t r outputData poseKeypoints scaleNetToOutput tr =
           (Inr (- 1, ''''),
            tr @ [ErrorLogged (Text ''Empty outputData.'') 143, ErrorLogged (What e) 208])"
  using assms by (simp add: render_defs comp_defs)

theorem renderPose_empty_output_witness:
  "renderPose specServices scenarioTopology (scenarioRenderer 3 True) emptyFrame twoPeople
     scale8 [] =
     (Inr (- 1, ''''),
      [ErrorLogged (Text ''Empty outputData.'') 143,
       ErrorLogged (What (RuntimeError ''Empty outputData.'')) 208])"
  using renderPose_empty_output [where svc = specServices and t = scenarioTopology
      and r = "scenarioRenderer 3 True" and outputData = emptyFrame
      and poseKeypoints = twoPeople and scaleNetToOutput = scale8
      and e = "RuntimeError ''Empty outputData.''" and tr = "[]"]
  by (simp add: scenario_defs)

text \<open>
  C6. Let \<^verbatim>\<open>error\<close> throw when line 166 reports the scale and return when the handler
  of line 208 reports what it caught. Then every call with an element other than 0
  selected and the sentinel scale -1 (the output buffer non-empty, no device error
  pending) uploads the frame, reports the error, invokes no kernel, does not reach the
  read-back, and returns \<open>(-1, "")\<close>.
\<close>

theorem renderPose_invalid_scale:
  assumes "spElementToRender r \<noteq> 0"
    and "scaleNetToOutput = minusOneF"
    and "\<not> isEmpty outputData"
    and "cudaLastError svc 153 = None"
    and "errorThrows svc (Text ''Non valid scaleNetToOutput.'') 166 = Some e"
    and "errorThrows svc (What e) 208 = None"
  shows "renderPose svc t r outputData poseKeypoints scaleNetToOutput tr =
           (Inr (- 1, ''''),
            tr @ [CpuToGpuMemoryIfNotCopiedYet (getPtr outputData),
                  ErrorLogged (Text ''Non valid scaleNetToOutput.'') 166,
                  ErrorLogged (What e) 208])"
  using assms by (simp add: render_defs comp_defs)

theorem renderPose_invalid_scale_witness:
  "renderPose specServices scenarioTopology (scenarioRenderer 3 True) outputFrame twoPeople
     minusOneF [] =
     (Inr (- 1, ''''),
      [CpuToGpuMemoryIfNotCopiedYet 4096,
       ErrorLogged (Text ''Non valid scaleNetToOutput.'') 166,
       ErrorLogged (What (RuntimeError ''Non valid scaleNetToOutput.'')) 208])"
  using renderPose_invalid_scale [where svc = specServices and t = scenarioTopology
      and r = "scenarioRenderer 3 True" and outputData = outputFrame
      and poseKeypoints = twoPeople and scaleNetToOutput = minusOneF
      and e = "RuntimeError ''Non valid scaleNetToOutput.''" and tr = "[]"]
  by (simp add: scenario_defs)

text \<open>
  Both results rest on the two assumptions about \<^verbatim>\<open>error\<close>. Where the handler's
  \<^verbatim>\<open>error\<close> throws too, the exception leaves \<^verbatim>\<open>renderPose\<close> and line 209 is not
  reached; where \<^verbatim>\<open>error\<close> returns at line 143, the frame is rendered as if the buffer
  were not empty.
\<close>

lemma renderPose_handler_rethrows:
  assumes "isEmpty outputData"
    and "errorThrows svc (Text ''Empty outputData.'') 143 = Some e"
    and "errorThrows svc (What e) 208 = Some e'"
  shows "renderPose svc t r outputData poseKeypoints scaleNetToOutput tr =
           (Inl e',
            tr @ [ErrorLogged (Text ''Empty outputData.'') 143, ErrorLogged (What e) 208])"
  using assms by (simp add: render_defs comp_defs)

lemma renderPose_report_returns:
  assumes "isEmpty outputData"
    and "errorThrows svc (Text ''Empty outputData.'') 143 = None"
    and "spElementToRender r = 0" and "\<not> mBlendOriginalFrame r" and "isEmpty poseKeypoints"
    and "cudaLastError svc 153 = None" and "cudaLastError svc 202 = None"
  shows "renderPose svc t r outputData poseKeypoints scaleNetToOutput tr =
           (Inr (0, ''''),
            tr @ [ErrorLogged (Text ''Empty outputData.'') 143,
                  CpuToGpuMemoryIfNotCopiedYet (getPtr outputData),
                  RenderPoseGpu (mPoseModel r) (getSize0 poseKeypoints) (mOutputSize r)
                    (pGpuPose r) (mShowGooglyEyes r) (mBlendOriginalFrame r) (alphaKeypoint r),
                  GpuToCpuMemoryIfLastRenderer (getPtr outputData)])"
  using assms by (simp add: render_defs comp_defs)

subsection \<open>\<^verbatim>\<open>createPartToName\<close>\<close>

lemma loop_unfold:
  assumes "i < length (POSE_BODY_PART_PAIRS t)"
  shows "createPartToName_loop t i tbl =
    (case limbStep t i tbl of Inl e \<Rightarrow> Inl e | Inr tbl' \<Rightarrow> createPartToName_loop t (i + 2) tbl')"
  using assms by (subst createPartToName_loop.simps) simp

lemma loop_done:
  assumes "\<not> i < length (POSE_BODY_PART_PAIRS t)"
  shows "createPartToName_loop t i tbl = Inr tbl"
  using assms by (subst createPartToName_loop.simps) simp

lemma limbStep_in_range:
  assumes "limbStep t i tbl = Inr tbl'"
  shows "i < length (POSE_BODY_PART_PAIRS t)"
  using assms by (auto simp: limbStep_def vector_at_def split: if_splits)

lemma limbStep_missing_endpoint:
  assumes "tbl (POSE_BODY_PART_PAIRS t ! i) = None \<or> tbl (POSE_BODY_PART_PAIRS t ! (i + 1)) = None"
  shows "limbStep t i tbl = Inl OutOfRange"
  using assms
  by (auto simp: limbStep_def vector_at_def limbName_def map_at_def split: option.splits)

lemma limbStep_named:
  assumes "i + 1 < length (POSE_BODY_PART_PAIRS t)"
    and "i + 1 < length (POSE_MAP_IDX t)"
    and "tbl (POSE_BODY_PART_PAIRS t ! i) = Some a"
    and "tbl (POSE_BODY_PART_PAIRS t ! (i + 1)) = Some b"
    and "POSE_MAP_IDX t ! i \<noteq> POSE_BODY_PART_PAIRS t ! i"
    and "POSE_MAP_IDX t ! i \<noteq> POSE_BODY_PART_PAIRS t ! (i + 1)"
  shows "limbStep t i tbl =
    Inr (tbl(POSE_MAP_IDX t ! i \<mapsto> a @ ''->'' @ b @ ''(X)'',
             POSE_MAP_IDX t ! (i + 1) \<mapsto> a @ ''->'' @ b @ ''(Y)''))"
  using assms by (simp add: limbStep_def vector_at_def limbName_def map_at_def)

text \<open>The loop started at line 21 continues from the table that \<open>k\<close> passes have made.\<close>

lemma loop_from_tableAfter:
  "tableAfter t k = Inr tbl \<Longrightarrow>
   createPartToName_loop t 0 (getPoseBodyPartMapping t) = createPartToName_loop t (2 * k) tbl"
proof (induction k arbitrary: tbl)
  case 0
  then show ?case by simp
next
  case (Suc k)
  from Suc.prems obtain tbl0 where
    prev: "tableAfter t k = Inr tbl0" and step: "limbStep t (2 * k) tbl0 = Inr tbl"
    by (auto split: sum.splits)
  have "createPartToName_loop t 0 (getPoseBodyPartMapping t) = createPartToName_loop t (2 * k) tbl0"
    using prev by (rule Suc.IH)
  also have "\<dots> = createPartToName_loop t (2 * k + 2) tbl"
    using limbStep_in_range [OF step] step by (simp add: loop_unfold)
  finally show ?case by simp
qed

text \<open>
  C9. Let the handler's \<^verbatim>\<open>error\<close> (line 35) return after reporting. If the loop comes
  to a limb one of whose two endpoints has no name in the table as it then stands, the
  \<^verbatim>\<open>at\<close> of line 27 throws, \<^verbatim>\<open>createPartToName\<close> reports the error and returns the
  empty table.
\<close>

theorem createPartToName_missing_name:
  assumes "2 * k + 1 < length (POSE_BODY_PART_PAIRS t)"
    and "tableAfter t k = Inr partToName"
    and "partToName (POSE_BODY_PART_PAIRS t ! (2 * k)) = None \<or>
         partToName (POSE_BODY_PART_PAIRS t ! (2 * k + 1)) = None"
    and "errorThrows svc (What OutOfRange) 35 = None"
  shows "createPartToName svc t tr = (Inr Map.empty, tr @ [ErrorLogged (What OutOfRange) 35])"
proof -
  have "createPartToName_loop t 0 (getPoseBodyPartMapping t) =
      createPartToName_loop t (2 * k) partToName"
    using assms(2) by (rule loop_from_tableAfter)
  also have "\<dots> = Inl OutOfRange"
    using assms(1) limbStep_missing_endpoint [OF assms(3)] by (simp add: loop_unfold)
  finally show ?thesis
    using assms(4) by (simp add: createPartToName_def comp_defs)
qed

theorem createPartToName_missing_name_witness:
  "createPartToName specServices brokenTopology [] =
     (Inr Map.empty, [ErrorLogged (What OutOfRange) 35])"
  using createPartToName_missing_name [where svc = specServices and t = brokenTopology
      and k = 0 and partToName = "map_of [(0, ''nose''), (1, ''neck'')]" and tr = "[]"]
  by (simp add: specServices_def brokenTopology_def)

text \<open>Where the handler's \<^verbatim>\<open>error\<close> throws, the caller gets the exception and no table.\<close>

lemma createPartToName_handler_rethrows:
  "createPartToName throwingServices brokenTopology [] =
     (Inl OutOfRange, [ErrorLogged (What OutOfRange) 35])"
  by (simp add: createPartToName_def comp_defs throwingServices_def brokenTopology_def
      loop_unfold limbStep_def vector_at_def limbName_def map_at_def)

lemma take_two_more:
  assumes "i + 1 < length xs"
  shows "set (take (i + 2) xs) = set (take i xs) \<union> {xs ! i, xs ! (i + 1)}"
proof -
  have "take (i + 2) xs = take i xs @ [xs ! i, xs ! (i + 1)]"
    using assms by (simp add: take_Suc_conv_app_nth)
  then show ?thesis by auto
qed

text \<open>
  The invariant of the loop on a well-formed topology: the keys are the part keys and the
  channels of the limbs done so far, the part names are untouched, and the limbs done so
  far have their two entries.
\<close>

lemma loop_wellformed:
  assumes "even (length (POSE_BODY_PART_PAIRS t))"
    and "length (POSE_MAP_IDX t) = length (POSE_BODY_PART_PAIRS t)"
    and "distinct (POSE_MAP_IDX t)"
    and "set (POSE_MAP_IDX t) \<inter> dom (getPoseBodyPartMapping t) = {}"
    and "set (POSE_BODY_PART_PAIRS t) \<subseteq> dom (getPoseBodyPartMapping t)"
  shows "even i \<Longrightarrow> i \<le> length (POSE_BODY_PART_PAIRS t) \<Longrightarrow>
     dom tbl = dom (getPoseBodyPartMapping t) \<union> set (take i (POSE_MAP_IDX t)) \<Longrightarrow>
     (\<forall>k \<in> dom (getPoseBodyPartMapping t). tbl k = getPoseBodyPartMapping t k) \<Longrightarrow>
     (\<forall>j. even j \<and> j < i \<longrightarrow> synthesized t tbl j) \<Longrightarrow>
     \<exists>tbl'. createPartToName_loop t i tbl = Inr tbl' \<and>
        dom tbl' = dom (getPoseBodyPartMapping t) \<union> set (POSE_MAP_IDX t) \<and>
        (\<forall>k \<in> dom (getPoseBodyPartMapping t). tbl' k = getPoseBodyPartMapping t k) \<and>
        (\<forall>j. even j \<and> j < length (POSE_BODY_PART_PAIRS t) \<longrightarrow> synthesized t tbl' j)"
proof (induction "length (POSE_BODY_PART_PAIRS t) - i" arbitrary: i tbl rule: less_induct)
  case less
  let ?ps = "POSE_BODY_PART_PAIRS t" and ?mi = "POSE_MAP_IDX t" and ?pm = "getPoseBodyPartMapping t"
  show ?case
  proof (cases "i < length ?ps")
    case False
    then have "i = length ?ps" using less.prems(2) by simp
    then show ?thesis using less.prems(3,4,5) assms(2) by (simp add: loop_done)
  next
    case True
    then have i1: "i + 1 < length ?ps"
      using less.prems(1) assms(1) by (metis Suc_eq_plus1 Suc_lessI even_Suc)
    have "?ps ! i \<in> set ?ps" and "?ps ! (i + 1) \<in> set ?ps"
      using True i1 by (simp_all only: nth_mem)
    then have A: "?ps ! i \<in> dom ?pm" and B: "?ps ! (i + 1) \<in> dom ?pm"
      using assms(5) by blast+
    have "?mi ! i \<in> set ?mi" and "?mi ! (i + 1) \<in> set ?mi"
      using True i1 assms(2) by (simp_all only: nth_mem)
    then have MA: "?mi ! i \<notin> dom ?pm" and MB: "?mi ! (i + 1) \<notin> dom ?pm"
      using assms(4) by blast+
    obtain a b where a: "tbl (?ps ! i) = Some a" and b: "tbl (?ps ! (i + 1)) = Some b"
      using A B less.prems(4) by (metis domD)
    have pa: "?pm (?ps ! i) = Some a" and pb: "?pm (?ps ! (i + 1)) = Some b"
      using a b A B less.prems(4) by auto
    let ?tbl' = "tbl(?mi ! i \<mapsto> a @ ''->'' @ b @ ''(X)'', ?mi ! (i + 1) \<mapsto> a @ ''->'' @ b @ ''(Y)'')"
    have step: "limbStep t i tbl = Inr ?tbl'"
      using i1 assms(2) a b A B MA by (intro limbStep_named) auto
    have tk: "set (take (i + 2) ?mi) = set (take i ?mi) \<union> {?mi ! i, ?mi ! (i + 1)}"
      using i1 assms(2) by (intro take_two_more) simp
    have "dom ?tbl' = insert (?mi ! (i + 1)) (insert (?mi ! i) (dom tbl))"
      by simp
    then have dom': "dom ?tbl' = dom ?pm \<union> set (take (i + 2) ?mi)"
      unfolding tk less.prems(3) by blast
    have keep': "\<forall>k \<in> dom ?pm. ?tbl' k = ?pm k"
      using less.prems(4) MA MB by auto
    have ne: "?mi ! i \<noteq> ?mi ! (i + 1)"
      using assms(2,3) i1 by (simp add: nth_eq_iff_index_eq)
    have new: "synthesized t ?tbl' i"
      using ne pa pb by (simp add: synthesized_def)
    have old: "synthesized t ?tbl' j" if j: "even j" "j < i" for j
    proof -
      have j1: "j + 1 < i" using j less.prems(1) by (metis Suc_eq_plus1 Suc_lessI even_Suc)
      have "?mi ! j \<noteq> ?mi ! i" "?mi ! j \<noteq> ?mi ! (i + 1)"
           "?mi ! (j + 1) \<noteq> ?mi ! i" "?mi ! (j + 1) \<noteq> ?mi ! (i + 1)"
        using assms(2,3) i1 j j1 by (simp_all add: nth_eq_iff_index_eq)
      then have e1: "?tbl' (?mi ! j) = tbl (?mi ! j)"
        and e2: "?tbl' (?mi ! (j + 1)) = tbl (?mi ! (j + 1))"
        by simp_all
      have "synthesized t tbl j" using less.prems(5) j by blast
      then show ?thesis unfolding synthesized_def by (simp only: e1 e2)
    qed
    have syn': "\<forall>j. even j \<and> j < i + 2 \<longrightarrow> synthesized t ?tbl' j"
    proof (intro allI impI)
      fix j assume j: "even j \<and> j < i + 2"
      then have "j < i \<or> j = i"
        using less.prems(1) by (metis Suc_eq_plus1 add_2_eq_Suc' even_Suc less_Suc_eq)
      then show "synthesized t ?tbl' j" using old new j by blast
    qed
    have "\<exists>tbl''. createPartToName_loop t (i + 2) ?tbl' = Inr tbl'' \<and>
        dom tbl'' = dom ?pm \<union> set ?mi \<and> (\<forall>k \<in> dom ?pm. tbl'' k = ?pm k) \<and>
        (\<forall>j. even j \<and> j < length ?ps \<longrightarrow> synthesized t tbl'' j)"
      using i1 less.prems(1) dom' keep' syn' by (intro less.hyps) auto
    then show ?thesis using True step by (simp add: loop_unfold)
  qed
qed

text \<open>
  C7, as the spec states it, fails on the spec's own scenario: five part names and one
  limb give a table of seven entries, not of six.
\<close>

theorem createPartToName_size_counterexample:
  "tableSize (fst (createPartToName specServices scenarioTopology [])) \<noteq>
     numberOfParts scenarioTopology + numberOfLimbPairs scenarioTopology"
  by (simp add: tableSize_def numberOfParts_def numberOfLimbPairs_def createPartToName_def
      comp_defs scenarioTopology_def loop_unfold loop_done limbStep_def vector_at_def
      limbName_def map_at_def)

text \<open>
  C7, amended. Let a topology be well-formed: finitely many part names, a flat pair
  sequence of even length, a channel sequence of the same length whose channels are
  distinct and are no part keys, and a name for every limb endpoint. Then
  \<^verbatim>\<open>createPartToName\<close> reports nothing and returns a table with
  \<open>numberOfParts + 2 * numberOfLimbPairs\<close> entries: its keys are the part keys and the
  channels, the part names are unchanged, and every limb has its two synthesized entries,
  \<^verbatim>\<open>A->B(X)\<close> at \<open>mapIdxA\<close> and \<^verbatim>\<open>A->B(Y)\<close> at \<open>mapIdxB\<close>.
\<close>

theorem createPartToName_size:
  assumes "finite (dom (getPoseBodyPartMapping t))"
    and "even (length (POSE_BODY_PART_PAIRS t))"
    and "length (POSE_MAP_IDX t) = length (POSE_BODY_PART_PAIRS t)"
    and "distinct (POSE_MAP_IDX t)"
    and "set (POSE_MAP_IDX t) \<inter> dom (getPoseBodyPartMapping t) = {}"
    and "set (POSE_BODY_PART_PAIRS t) \<subseteq> dom (getPoseBodyPartMapping t)"
  shows "\<exists>partToName. createPartToName svc t tr = (Inr partToName, tr) \<and>
           card (dom partToName) = numberOfParts t + 2 * numberOfLimbPairs t \<and>
           dom partToName = dom (getPoseBodyPartMapping t) \<union> set (POSE_MAP_IDX t) \<and>
           (\<forall>k \<in> dom (getPoseBodyPartMapping t). partToName k = getPoseBodyPartMapping t k) \<and>
           (\<forall>j. even j \<and> j < length (POSE_BODY_PART_PAIRS t) \<longrightarrow> synthesized t partToName j)"
proof -
  obtain tbl where run: "createPartToName_loop t 0 (getPoseBodyPartMapping t) = Inr tbl"
    and d: "dom tbl = dom (getPoseBodyPartMapping t) \<union> set (POSE_MAP_IDX t)"
    and keep: "\<forall>k \<in> dom (getPoseBodyPartMapping t). tbl k = getPoseBodyPartMapping t k"
    and syn: "\<forall>j. even j \<and> j < length (POSE_BODY_PART_PAIRS t) \<longrightarrow> synthesized t tbl j"
    using loop_wellformed [OF assms(2-6), of 0 "getPoseBodyPartMapping t"] by auto
  have "card (dom tbl) = card (dom (getPoseBodyPartMapping t)) + card (set (POSE_MAP_IDX t))"
    unfolding d using assms(1,5) by (intro card_Un_disjoint) auto
  also have "card (set (POSE_MAP_IDX t)) = length (POSE_BODY_PART_PAIRS t)"
    using assms(3,4) by (simp add: distinct_card)
  also have "length (POSE_BODY_PART_PAIRS t) = 2 * numberOfLimbPairs t"
    using assms(2) by (simp add: numberOfLimbPairs_def)
  finally have c: "card (dom tbl) = numberOfParts t + 2 * numberOfLimbPairs t"
    by (simp add: numberOfParts_def)
  have "createPartToName svc t tr = (Inr tbl, tr)"
    using run by (simp add: createPartToName_def comp_defs)
  then show ?thesis using d keep c syn by blast
qed

theorem createPartToName_size_witness:
  "\<exists>partToName. createPartToName specServices scenarioTopology [] = (Inr partToName, []) \<and>
     card (dom partToName) = 7 \<and>
     dom partToName = {0, 1, 2, 3, 4, 5, 6} \<and>
     partToName 0 = Some ''nose'' \<and>
     partToName 5 = Some ''nose->neck(X)'' \<and>
     partToName 6 = Some ''nose->neck(Y)''"
proof -
  have "numberOfParts scenarioTopology = 5" "numberOfLimbPairs scenarioTopology = 1"
    by (simp_all add: numberOfParts_def numberOfLimbPairs_def scenarioTopology_def)
  moreover have "\<And>p. synthesized scenarioTopology p 0 =
      (p 5 = Some ''nose->neck(X)'' \<and> p 6 = Some ''nose->neck(Y)'')"
    by (simp add: synthesized_def scenarioTopology_def)
  ultimately show ?thesis
    using createPartToName_size [where svc = specServices and t = scenarioTopology and tr = "[]"]
    by (auto simp add: scenarioTopology_def)
qed

subsection \<open>The scenario of the spec\<close>

text \<open>
  C8, as the spec states it, fails: with five body parts the element 6 is still a single
  part (6 is at most B = 6), so the label is the table's entry at key 5 as it stands,
  suffix included.
\<close>

theorem scenario_layer_6_counterexample:
  "fst (renderPose specServices scenarioTopology (scenarioRenderer 6 True) outputFrame twoPeople
     scale8 []) \<noteq> Inr (6, ''nose->neck'')"
  by (simp add: render_defs comp_defs scenario_defs)

text \<open>
  C8, amended. For the topology of five parts with limb pairs [(0,1)], channels [(5,6)]
  and part names nose, neck, ...: the constructor builds the table with
  \<^verbatim>\<open>nose->neck(X)\<close> at key 5. With element 6 selected \<^verbatim>\<open>renderPose\<close> takes the
  single-part branch and returns the entry at key 5 as it is, \<^verbatim>\<open>nose->neck(X)\<close>; with
  element 5 selected it takes the same branch and returns the name of part 4; the
  single-affinity branch is first taken at element 9, where the label is
  \<^verbatim>\<open>nose->neck\<close>, the suffix stripped, and the channel is 5.
\<close>

theorem scenario_layers:
  "PoseRenderer specServices scenarioTopology (80, 60) (640, 480) 0 True 0x3F19999A 0x3F333333 6 []
     = (Inr (scenarioRenderer 6 True), []) \<and>
   map_at scenarioLabels 5 = Inr ''nose->neck(X)'' \<and>
   renderPose specServices scenarioTopology (scenarioRenderer 6 True) outputFrame twoPeople
     scale8 [] =
     (Inr (6, ''nose->neck(X)''),
      [CpuToGpuMemoryIfNotCopiedYet 4096,
       RenderBodyPartGpu 0 (640, 480) (80, 60) 0x41000000 6 0x3F333333,
       GpuToCpuMemoryIfLastRenderer 4096]) \<and>
   renderPose specServices scenarioTopology (scenarioRenderer 5 True) outputFrame twoPeople
     scale8 [] =
     (Inr (5, ''rWrist''),
      [CpuToGpuMemoryIfNotCopiedYet 4096,
       RenderBodyPartGpu 0 (640, 480) (80, 60) 0x41000000 5 0x3F333333,
       GpuToCpuMemoryIfLastRenderer 4096]) \<and>
   renderPose specServices scenarioTopology (scenarioRenderer 9 True) outputFrame twoPeople
     scale8 [] =
     (Inr (9, ''nose->neck''),
      [CpuToGpuMemoryIfNotCopiedYet 4096,
       RenderPartAffinityFieldGpu 0 (640, 480) (80, 60) 0x41000000 5 0x3F333333,
       GpuToCpuMemoryIfLastRenderer 4096])"
  by (simp add: PoseRenderer_def createPartToName_def loop_unfold loop_done limbStep_def
      limbName_def render_defs substr0_find_char comp_defs scenario_defs)

theorem scenario_layers_witness:
  "fst (renderPose specServices scenarioTopology (scenarioRenderer 6 True) outputFrame twoPeople
     scale8 []) = Inr (6, ''nose->neck(X)'') \<and>
   fst (renderPose specServices scenarioTopology (scenarioRenderer 9 True) outputFrame twoPeople
     scale8 []) = Inr (9, ''nose->neck'')"
  using scenario_layers by simp

text \<open>
  Counting the five names as four body parts and the background does not help: element 6
  is then the combined heat map.
\<close>

lemma scenario_four_parts:
  "fst (renderPose specServices (scenarioTopology\<lparr>POSE_NUMBER_BODY_PARTS := 4\<rparr>)
     (scenarioRenderer 6 True) outputFrame twoPeople scale8 []) = Inr (6, ''Heatmaps'')"
  by (simp add: render_defs comp_defs scenario_defs)

end
